theory Spec2Isabelle
  imports Main
begin

section \<open>The inventory store of \<^verbatim>\<open>utils/db.go\<close>\<close>

text \<open>
  \<^verbatim>\<open>db.go\<close> is a data-access layer: every operation of \<^verbatim>\<open>SQLiteRepository\<close> sends one
  SQL statement to SQLite (through \<^verbatim>\<open>sqlx\<close> and \<^verbatim>\<open>go-sqlite3\<close>) and turns the answer into
  Go values. The embedding has two layers.

  \<^item> The Go functions (\<open>Migrate\<close>, \<open>CreateBrand\<close>, \<open>CreateModel\<close>, \<open>CreateWindshield\<close>,
    \<open>UpdateWindshieldStock\<close>, \<open>GetAllBrands\<close>, \<open>GetModelsByBrandId\<close>,
    \<open>GetModelsByBrandName\<close>, \<open>GetWindShieldsByModelId\<close>) are translated branch by branch.
  \<^item> What they call is not code of this repository: the SQL statements written in the
    source are given the meaning SQLite gives them on the schema the source declares
    (\<^verbatim>\<open>db.go:74-102\<close>), and \<^verbatim>\<open>Exec\<close>, \<^verbatim>\<open>Get\<close>, \<^verbatim>\<open>MustExec\<close>, \<^verbatim>\<open>Commit\<close> the behaviour
    their libraries document. Each such definition says which statement or call it stands for.

  Go's \<^verbatim>\<open>int64\<close> is modelled as \<open>int\<close>: the Go code does no arithmetic on these values, and
  the one place where the 64-bit bound matters (the engine's choice of a new rowid) writes
  the bound out. A \<^verbatim>\<open>nil\<close> error is \<open>None\<close>.
\<close>

subsection \<open>Go types and values (\<^verbatim>\<open>db.go:11-54\<close>)\<close>

text \<open>\<^verbatim>\<open>type WindshieldType string\<close>: any string converts to it; the twelve constants
  of \<^verbatim>\<open>db.go:14-27\<close> are its intended values.\<close>

type_synonym WindshieldType = string

definition LFDOOR :: WindshieldType where "LFDOOR = ''LFDOOR''"
definition RFDOOR :: WindshieldType where "RFDOOR = ''RFDOOR''"
definition LBDOOR :: WindshieldType where "LBDOOR = ''LBDOOR''"
definition RBDOOR :: WindshieldType where "RBDOOR = ''RBDOOR''"
definition WINDSHIELD :: WindshieldType where "WINDSHIELD = ''WINDSHIELD''"
definition LFVENT :: WindshieldType where "LFVENT = ''LFVENT''"
definition RFVENT :: WindshieldType where "RFVENT = ''RFVENT''"
definition LBVENT :: WindshieldType where "LBVENT = ''LBVENT''"
definition RBVENT :: WindshieldType where "RBVENT = ''RBVENT''"
definition LBQUARTER :: WindshieldType where "LBQUARTER = ''LBQUARTER''"
definition RBQUARTER :: WindshieldType where "RBQUARTER = ''RBQUARTER''"
definition BACK :: WindshieldType where "BACK = ''BACK''"

text \<open>The structs the queries scan into (\<^verbatim>\<open>db.go:29-47\<close>). \<open>WindShield\<close> has no id field.\<close>

record Brand =
  Id :: int
  Name :: string

record Model =
  Id :: int
  Name :: string
  Brand :: int

record WindShield =
  Type :: WindshieldType
  Brand :: int
  Model :: int
  Stock :: int
  Year :: string

text \<open>A Go slice value: \<open>None\<close> is the \<^verbatim>\<open>nil\<close> slice (\<^verbatim>\<open>var brands []Brand\<close>), \<open>Some []\<close> the
  empty slice \<^verbatim>\<open>[]Brand{}\<close>.\<close>

type_synonym 'a slice = "'a list option"

text \<open>\<^verbatim>\<open>sqlite3.Error\<close> of go-sqlite3, with the result code and the extended result code the
  engine reported. The message text is kept as its kind only.\<close>

datatype message = SyntaxError | NoSuchTable | TableExists | ConstraintFailed | DatabaseFull

record sqlite3_Error =
  Code :: nat
  ExtendedCode :: nat
  err :: message

text \<open>The error values that reach the functions of \<^verbatim>\<open>db.go\<close>: the package's own
  (\<^verbatim>\<open>db.go:49-54\<close>), \<^verbatim>\<open>sql.ErrNoRows\<close>, a \<^verbatim>\<open>sqlite3.Error\<close>, and the two errors \<^verbatim>\<open>sqlx\<close>'s \<^verbatim>\<open>Get\<close>
  builds itself: \<^verbatim>\<open>scannable dest type slice with >1 columns (n) in result\<close> and
  \<^verbatim>\<open>database/sql\<close>'s \<^verbatim>\<open>unsupported Scan\<close>.\<close>

datatype error =
    ErrDuplicate
  | ErrNotExists
  | ErrUpdateFailed
  | ErrDeleteFailed
  | ErrNoRows
  | SqliteError sqlite3_Error
  | ScannableDestColumns nat
  | UnsupportedScan

text \<open>go-sqlite3's codes: \<^verbatim>\<open>ErrConstraint = ErrNo(19)\<close>, \<^verbatim>\<open>ErrConstraintUnique =
  ErrConstraint.Extend(8)\<close>, \<^verbatim>\<open>ErrConstraintForeignKey = ErrConstraint.Extend(3)\<close>, where
  \<^verbatim>\<open>Extend(by)\<close> is \<^verbatim>\<open>err | (by << 8)\<close>; 19 has no bit above the seventh, so the or is a sum.\<close>

definition ErrError :: nat where "ErrError = 1"
definition ErrFull :: nat where "ErrFull = 13"
definition ErrConstraint :: nat where "ErrConstraint = 19"

definition Extend :: "nat \<Rightarrow> nat \<Rightarrow> nat" where
  "Extend e by = e + by * 256"

definition ErrConstraintUnique :: nat where
  "ErrConstraintUnique = Extend ErrConstraint 8"

definition ErrConstraintForeignKey :: nat where
  "ErrConstraintForeignKey = Extend ErrConstraint 3"

definition syntax_error :: sqlite3_Error where
  "syntax_error = \<lparr>Code = ErrError, ExtendedCode = ErrError, err = SyntaxError\<rparr>"

definition no_such_table :: sqlite3_Error where
  "no_such_table = \<lparr>Code = ErrError, ExtendedCode = ErrError, err = NoSuchTable\<rparr>"

definition table_exists :: sqlite3_Error where
  "table_exists = \<lparr>Code = ErrError, ExtendedCode = ErrError, err = TableExists\<rparr>"

definition unique_failed :: sqlite3_Error where
  "unique_failed =
     \<lparr>Code = ErrConstraint, ExtendedCode = ErrConstraintUnique, err = ConstraintFailed\<rparr>"

definition foreign_key_failed :: sqlite3_Error where
  "foreign_key_failed =
     \<lparr>Code = ErrConstraint, ExtendedCode = ErrConstraintForeignKey, err = ConstraintFailed\<rparr>"

definition database_full :: sqlite3_Error where
  "database_full = \<lparr>Code = ErrFull, ExtendedCode = ErrFull, err = DatabaseFull\<rparr>"

text \<open>\<^verbatim>\<open>errors.As(err, &sqliteErr)\<close> with \<^verbatim>\<open>var sqliteErr sqlite3.Error\<close>: the error is a
  \<^verbatim>\<open>sqlite3.Error\<close> (none of the values here wraps another).\<close>

fun errors_As :: "error \<Rightarrow> sqlite3_Error option" where
  "errors_As (SqliteError e) = Some e"
| "errors_As _ = None"

text \<open>\<^verbatim>\<open>sql.Result\<close> as go-sqlite3 returns it (fields \<^verbatim>\<open>id\<close> and \<^verbatim>\<open>changes\<close>); its
  \<^verbatim>\<open>LastInsertId()\<close> never fails.\<close>

record Result =
  res_id :: int
  res_changes :: int

definition LastInsertId :: "Result \<Rightarrow> int \<times> error option" where
  "LastInsertId res = (res_id res, None)"

subsection \<open>The database behind the repository\<close>

text \<open>
  The rows of the three tables, column by column as \<^verbatim>\<open>db.go:74-102\<close> declares them:
  \<^verbatim>\<open>brand(id, name)\<close>, \<^verbatim>\<open>model(id, name, brand_id)\<close>,
  \<^verbatim>\<open>windshield(id, type, year, stock, brand_id, model_id)\<close>.
\<close>

record brand_row =
  b_id :: int
  b_name :: string

record model_row =
  m_id :: int
  m_name :: string
  m_brand_id :: int

record windshield_row =
  w_id :: int
  w_type :: string
  w_year :: string
  w_stock :: int
  w_brand_id :: int
  w_model_id :: int

text \<open>
  The state \<^verbatim>\<open>SQLiteRepository.db\<close> gives access to: each table is absent (\<open>None\<close>) or
  holds the list of its rows, and \<open>foreign_keys\<close> is the connection's
  \<^verbatim>\<open>PRAGMA foreign_keys\<close> flag. SQLite opens a connection with the flag off; go-sqlite3
  turns it on only when the data source name passed to \<^verbatim>\<open>OpenDB\<close> asks for it.
\<close>

record database =
  brand_tbl :: "brand_row list option"
  model_tbl :: "model_row list option"
  windshield_tbl :: "windshield_row list option"
  foreign_keys :: bool

type_synonym SQLiteRepository = database

definition brand_rows :: "database \<Rightarrow> brand_row list" where
  "brand_rows db = (case brand_tbl db of None \<Rightarrow> [] | Some bs \<Rightarrow> bs)"

definition model_rows :: "database \<Rightarrow> model_row list" where
  "model_rows db = (case model_tbl db of None \<Rightarrow> [] | Some ms \<Rightarrow> ms)"

subsection \<open>The engine's rowid for a new row\<close>

text \<open>
  All three tables declare \<^verbatim>\<open>id INTEGER PRIMARY KEY\<close> and no statement of the source gives
  an id, so SQLite assigns the rowid: 1 in an empty table, else one more than the
  largest rowid in use. When the largest is \<open>2^63 - 1\<close> the engine takes an unused
  positive rowid, chosen at random, and reports \<^verbatim>\<open>SQLITE_FULL\<close> if it finds none; the model
  takes the least unused positive rowid, which lies among the first \<open>length ids + 1\<close>
  positive integers. So at that bound, and only there, the id of the model is one of the
  ids the engine may take and not always the one it takes; the properties below are about
  whether an insert fails and about the rows it stores under the id it returns, and hold
  whichever unused rowid is taken.
\<close>

definition max_rowid :: int where
  "max_rowid = 2 ^ 63 - 1"

definition unused_rowid :: "int list \<Rightarrow> int option" where
  "unused_rowid ids = find (\<lambda>r. r \<notin> set ids) (map int [1 ..< length ids + 2])"

definition new_rowid :: "int list \<Rightarrow> sqlite3_Error + int" where
  "new_rowid ids =
     (case ids of
        [] \<Rightarrow> Inr 1
      | i # rest \<Rightarrow>
          (if fold max rest i < max_rowid then Inr (fold max rest i + 1)
           else (case unused_rowid ids of
                   Some r \<Rightarrow> Inr r
                 | None \<Rightarrow> Inl database_full)))"

subsection \<open>The data statements of the source, as SQLite runs them\<close>

text \<open>
  \<^verbatim>\<open>db.db.Exec(query, args...)\<close> outside a transaction: the statement runs in autocommit
  mode, and a statement that fails leaves the database as it was. So each statement
  yields an error, or the \<^verbatim>\<open>sql.Result\<close> together with the database after it.

  \<^verbatim>\<open>INSERT INTO brand(name) values(?)\<close> (\<^verbatim>\<open>db.go:129\<close>): the table must exist; the rowid is
  assigned; \<^verbatim>\<open>name TEXT UNIQUE NOT NULL\<close> rejects a name that a row already has (compared
  byte by byte).
\<close>

definition exec_insert_brand :: "database \<Rightarrow> string \<Rightarrow> error + Result \<times> database" where
  "exec_insert_brand db name =
     (case brand_tbl db of
        None \<Rightarrow> Inl (SqliteError no_such_table)
      | Some bs \<Rightarrow>
          (case new_rowid (map b_id bs) of
             Inl e \<Rightarrow> Inl (SqliteError e)
           | Inr i \<Rightarrow>
               if name \<in> set (map b_name bs) then Inl (SqliteError unique_failed)
               else Inr (\<lparr>res_id = i, res_changes = 1\<rparr>,
                         db\<lparr>brand_tbl := Some (bs @ [\<lparr>b_id = i, b_name = name\<rparr>])\<rparr>)))"

text \<open>
  \<^verbatim>\<open>INSERT INTO model(name, brand_id) values(?, ?)\<close> (\<^verbatim>\<open>db.go:149\<close>). The uniqueness of
  \<^verbatim>\<open>name\<close> is checked when the row is written; \<^verbatim>\<open>FOREIGN KEY(brand_id) REFERENCES brand(id)\<close>
  is checked after it, and only when the connection's \<open>foreign_keys\<close> flag is on (with the
  flag on, the statement is not even prepared when the parent table is absent).
  \<^verbatim>\<open>UNIQUE(id, brand_id)\<close> follows from the primary key.
\<close>

definition exec_insert_model ::
  "database \<Rightarrow> string \<Rightarrow> int \<Rightarrow> error + Result \<times> database" where
  "exec_insert_model db name brand_id =
     (case model_tbl db of
        None \<Rightarrow> Inl (SqliteError no_such_table)
      | Some ms \<Rightarrow>
          if foreign_keys db \<and> brand_tbl db = None then Inl (SqliteError no_such_table)
          else
            (case new_rowid (map m_id ms) of
               Inl e \<Rightarrow> Inl (SqliteError e)
             | Inr i \<Rightarrow>
                 if name \<in> set (map m_name ms) then Inl (SqliteError unique_failed)
                 else if foreign_keys db \<and> brand_id \<notin> set (map b_id (brand_rows db))
                 then Inl (SqliteError foreign_key_failed)
                 else Inr (\<lparr>res_id = i, res_changes = 1\<rparr>,
                           db\<lparr>model_tbl :=
                                Some (ms @ [\<lparr>m_id = i, m_name = name, m_brand_id = brand_id\<rparr>])\<rparr>)))"

text \<open>
  \<^verbatim>\<open>INSERT INTO windshield(type, year, stock, brand_id, model_id) values(?, ?, ?, ?, ?)\<close>
  (\<^verbatim>\<open>db.go:169-172\<close>): two foreign keys, to \<^verbatim>\<open>model(id)\<close> and to \<^verbatim>\<open>brand(id)\<close>, and no
  uniqueness beyond the primary key.
\<close>

definition exec_insert_windshield ::
  "database \<Rightarrow> WindshieldType \<Rightarrow> string \<Rightarrow> int \<Rightarrow> int \<Rightarrow> int \<Rightarrow> error + Result \<times> database" where
  "exec_insert_windshield db typename year stock brand_id model_id =
     (case windshield_tbl db of
        None \<Rightarrow> Inl (SqliteError no_such_table)
      | Some ws \<Rightarrow>
          if foreign_keys db \<and> (model_tbl db = None \<or> brand_tbl db = None)
          then Inl (SqliteError no_such_table)
          else
            (case new_rowid (map w_id ws) of
               Inl e \<Rightarrow> Inl (SqliteError e)
             | Inr i \<Rightarrow>
                 if foreign_keys db \<and>
                    (model_id \<notin> set (map m_id (model_rows db)) \<or>
                     brand_id \<notin> set (map b_id (brand_rows db)))
                 then Inl (SqliteError foreign_key_failed)
                 else Inr (\<lparr>res_id = i, res_changes = 1\<rparr>,
                           db\<lparr>windshield_tbl :=
                                Some (ws @ [\<lparr>w_id = i, w_type = typename, w_year = year,
                                            w_stock = stock, w_brand_id = brand_id,
                                            w_model_id = model_id\<rparr>])\<rparr>)))"

subsection \<open>The insert operations (\<^verbatim>\<open>db.go:128-189\<close>)\<close>

text \<open>
  Each returns \<^verbatim>\<open>(int64, error)\<close>; the database after the call is returned beside them.
  \<^verbatim>\<open>errors.Is(sqliteErr.ExtendedCode, sqlite3.ErrConstraintUnique)\<close> compares the two
  \<^verbatim>\<open>ErrNoExtended\<close> values.
\<close>

definition CreateBrand :: "SQLiteRepository \<Rightarrow> string \<Rightarrow> (int \<times> error option) \<times> database" where
  "CreateBrand db name =
     (case exec_insert_brand db name of
        Inl e \<Rightarrow>
          (case errors_As e of
             Some sqliteErr \<Rightarrow>
               if ExtendedCode sqliteErr = ErrConstraintUnique
               then ((0, Some ErrDuplicate), db)
               else ((0, Some e), db)
           | None \<Rightarrow> ((0, Some e), db))
      | Inr (res, db') \<Rightarrow>
          (case LastInsertId res of
             (i, Some e) \<Rightarrow> ((0, Some e), db')
           | (i, None) \<Rightarrow> ((i, None), db')))"

definition CreateModel ::
  "SQLiteRepository \<Rightarrow> string \<Rightarrow> int \<Rightarrow> (int \<times> error option) \<times> database" where
  "CreateModel db name brand_id =
     (case exec_insert_model db name brand_id of
        Inl e \<Rightarrow>
          (case errors_As e of
             Some sqliteErr \<Rightarrow>
               if ExtendedCode sqliteErr = ErrConstraintUnique
               then ((0, Some ErrDuplicate), db)
               else ((0, Some e), db)
           | None \<Rightarrow> ((0, Some e), db))
      | Inr (res, db') \<Rightarrow>
          (case LastInsertId res of
             (i, Some e) \<Rightarrow> ((0, Some e), db')
           | (i, None) \<Rightarrow> ((i, None), db')))"

definition CreateWindshield ::
  "SQLiteRepository \<Rightarrow> WindshieldType \<Rightarrow> string \<Rightarrow> int \<Rightarrow> int \<Rightarrow> int
     \<Rightarrow> (int \<times> error option) \<times> database" where
  "CreateWindshield db typename year stock brand_id model_id =
     (case exec_insert_windshield db typename year stock brand_id model_id of
        Inl e \<Rightarrow>
          (case errors_As e of
             Some sqliteErr \<Rightarrow>
               if ExtendedCode sqliteErr = ErrConstraintUnique
               then ((0, Some ErrDuplicate), db)
               else ((0, Some e), db)
           | None \<Rightarrow> ((0, Some e), db))
      | Inr (res, db') \<Rightarrow>
          (case LastInsertId res of
             (i, Some e) \<Rightarrow> ((0, Some e), db')
           | (i, None) \<Rightarrow> ((i, None), db')))"

subsection \<open>The stock update (\<^verbatim>\<open>db.go:191-198\<close>)\<close>

text \<open>
  \<^verbatim>\<open>UPDATE windshield SET stock=? WHERE id=?\<close> (\<^verbatim>\<open>db.go:192\<close>): every row whose id is the
  second argument gets the first as its stock; no row matching is not an error, and
  \<^verbatim>\<open>stock\<close> is no foreign key. The source discards the \<^verbatim>\<open>sql.Result\<close>.
\<close>

definition exec_update_windshield_stock :: "database \<Rightarrow> int \<Rightarrow> int \<Rightarrow> error + database" where
  "exec_update_windshield_stock db stock i =
     (case windshield_tbl db of
        None \<Rightarrow> Inl (SqliteError no_such_table)
      | Some ws \<Rightarrow>
          Inr (db\<lparr>windshield_tbl :=
                   Some (map (\<lambda>w. if w_id w = i then w\<lparr>w_stock := stock\<rparr> else w) ws)\<rparr>))"

definition UpdateWindshieldStock ::
  "SQLiteRepository \<Rightarrow> int \<Rightarrow> int \<Rightarrow> error option \<times> database" where
  "UpdateWindshieldStock db i stock =
     (case exec_update_windshield_stock db stock i of
        Inl e \<Rightarrow> (Some e, db)
      | Inr db' \<Rightarrow> (None, db'))"

subsection \<open>The queries (\<^verbatim>\<open>db.go:200-265\<close>)\<close>

text \<open>What a query yields before it is scanned: the names of the result columns and the
  rows, a value for each column.\<close>

datatype val = Integer int | Text string

record Rows =
  Columns :: "string list"
  Data :: "val list list"

text \<open>\<^verbatim>\<open>SELECT * FROM brand\<close> (\<^verbatim>\<open>db.go:202\<close>).\<close>

definition query_all_brands :: "database \<Rightarrow> error + Rows" where
  "query_all_brands db =
     (case brand_tbl db of
        None \<Rightarrow> Inl (SqliteError no_such_table)
      | Some bs \<Rightarrow>
          Inr \<lparr>Columns = [''id'', ''name''],
               Data = map (\<lambda>b. [Integer (b_id b), Text (b_name b)]) bs\<rparr>)"

text \<open>\<^verbatim>\<open>SELECT * FROM model WHERE brand_id=?\<close> (\<^verbatim>\<open>db.go:216\<close>).\<close>

definition query_models_by_brand_id :: "database \<Rightarrow> int \<Rightarrow> error + Rows" where
  "query_models_by_brand_id db i =
     (case model_tbl db of
        None \<Rightarrow> Inl (SqliteError no_such_table)
      | Some ms \<Rightarrow>
          Inr \<lparr>Columns = [''id'', ''name'', ''brand_id''],
               Data = map (\<lambda>m. [Integer (m_id m), Text (m_name m), Integer (m_brand_id m)])
                        (filter (\<lambda>m. m_brand_id m = i) ms)\<rparr>)"

text \<open>The join of \<^verbatim>\<open>db.go:232-239\<close>: \<^verbatim>\<open>SELECT m.name, m.id, m.brand_id, b.name AS brand_name
  FROM model m JOIN brand b ON m.brand_id = b.id WHERE b.name = ?\<close>.\<close>

definition query_models_by_brand_name :: "database \<Rightarrow> string \<Rightarrow> error + Rows" where
  "query_models_by_brand_name db name =
     (case (model_tbl db, brand_tbl db) of
        (Some ms, Some bs) \<Rightarrow>
          Inr \<lparr>Columns = [''name'', ''id'', ''brand_id'', ''brand_name''],
               Data = concat (map (\<lambda>m.
                        map (\<lambda>b. [Text (m_name m), Integer (m_id m), Integer (m_brand_id m),
                                   Text (b_name b)])
                          (filter (\<lambda>b. m_brand_id m = b_id b \<and> b_name b = name) bs)) ms)\<rparr>
      | _ \<Rightarrow> Inl (SqliteError no_such_table))"

text \<open>\<^verbatim>\<open>SELECT * FROM windShield WHERE model_id = ?\<close> (\<^verbatim>\<open>db.go:255\<close>); SQLite compares table
  names without regard to case.\<close>

definition query_windshields_by_model_id :: "database \<Rightarrow> int \<Rightarrow> error + Rows" where
  "query_windshields_by_model_id db i =
     (case windshield_tbl db of
        None \<Rightarrow> Inl (SqliteError no_such_table)
      | Some ws \<Rightarrow>
          Inr \<lparr>Columns = [''id'', ''type'', ''year'', ''stock'', ''brand_id'', ''model_id''],
               Data = map (\<lambda>w. [Integer (w_id w), Text (w_type w), Text (w_year w),
                                Integer (w_stock w), Integer (w_brand_id w),
                                Integer (w_model_id w)])
                        (filter (\<lambda>w. w_model_id w = i) ws)\<rparr>)"

text \<open>
  \<^verbatim>\<open>db.db.Get(&dest, query, args...)\<close> of \<^verbatim>\<open>sqlx\<close>, for a destination that points to a slice,
  which is how all four queries call it. \<^verbatim>\<open>Get\<close> reads one row (\<^verbatim>\<open>QueryRowx\<close> followed by
  \<^verbatim>\<open>scanAny\<close>):
  \<^item> the error of the query, if it has one, is returned;
  \<^item> a destination whose type is not a struct is \<^emph>\<open>scannable\<close>, and for a scannable
    destination a result of more than one column is refused with
    \<^verbatim>\<open>scannable dest type slice with >1 columns (n) in result\<close>, before any row is read;
  \<^item> otherwise the first row is scanned into the destination: \<^verbatim>\<open>sql.ErrNoRows\<close> when there
    is none, and \<^verbatim>\<open>database/sql\<close>'s \<^verbatim>\<open>unsupported Scan\<close> error when there is one, since no
    column value converts to a slice of structs.
  So the call returns an error on every path and never writes the destination (rows
  are read into a slice by \<^verbatim>\<open>Select\<close>, which the source does not call).
\<close>

definition Get_slice :: "error + Rows \<Rightarrow> error option" where
  "Get_slice q =
     (case q of
        Inl e \<Rightarrow> Some e
      | Inr r \<Rightarrow>
          if length (Columns r) > 1 then Some (ScannableDestColumns (length (Columns r)))
          else (case Data r of
                  [] \<Rightarrow> Some ErrNoRows
                | row # _ \<Rightarrow> Some UnsupportedScan))"

text \<open>The four query functions. The local slice (\<^verbatim>\<open>var brands []Brand\<close>) is \<^verbatim>\<open>nil\<close> and \<^verbatim>\<open>Get\<close>
  leaves it so; \<^verbatim>\<open>errors.Is(err, sql.ErrNoRows)\<close> is equality with \<open>ErrNoRows\<close>.\<close>

definition GetAllBrands :: "SQLiteRepository \<Rightarrow> Brand slice \<times> error option" where
  "GetAllBrands db =
     (let brands = None in
      case Get_slice (query_all_brands db) of
        Some e \<Rightarrow> if e = ErrNoRows then (Some [], None) else (Some [], Some e)
      | None \<Rightarrow> (brands, None))"

definition GetModelsByBrandId :: "SQLiteRepository \<Rightarrow> int \<Rightarrow> Model slice \<times> error option" where
  "GetModelsByBrandId db i =
     (let models = None in
      case Get_slice (query_models_by_brand_id db i) of
        Some e \<Rightarrow> if e = ErrNoRows then (Some [], None) else (Some [], Some e)
      | None \<Rightarrow> (models, None))"

definition GetModelsByBrandName ::
  "SQLiteRepository \<Rightarrow> string \<Rightarrow> Model slice \<times> error option" where
  "GetModelsByBrandName db name =
     (let models = None in
      case Get_slice (query_models_by_brand_name db name) of
        Some e \<Rightarrow> if e = ErrNoRows then (Some [], None) else (Some [], Some e)
      | None \<Rightarrow> (models, None))"

definition GetWindShieldsByModelId ::
  "SQLiteRepository \<Rightarrow> int \<Rightarrow> WindShield slice \<times> error option" where
  "GetWindShieldsByModelId db i =
     (let windshields = None in
      case Get_slice (query_windshields_by_model_id db i) of
        Some e \<Rightarrow> if e = ErrNoRows then (Some [], None) else (Some [], Some e)
      | None \<Rightarrow> (windshields, None))"

subsection \<open>Schema setup (\<^verbatim>\<open>db.go:71-126\<close>)\<close>

text \<open>
  The four statements of \<open>Migrate\<close> are kept as the text the source holds, since what the
  engine does with them depends on how they are written. \<open>lines\<close> joins the lines of a Go
  raw string; \<open>TAB\<close> is the tab character of the source.
\<close>

definition TAB :: string where
  "TAB = [CHR 0x09]"

fun lines :: "string list \<Rightarrow> string" where
  "lines [] = []"
| "lines [l] = l"
| "lines (l # ls) = l @ CHR 0x0A # lines ls"

definition setPragma :: string where
  "setPragma = ''PRAGMA foreign_keys;''"

definition createBrandTable :: string where
  "createBrandTable = lines
     [[],
      ''    CREATE TABLE IF NOT EXISTS brand('',
      ''      id         INTEGER PRIMARY KEY NOT NULL, '',
      ''      name'' @ TAB @ TAB @ TAB @ '' TEXT UNIQUE NOT NULL,'',
      ''    );'',
      ''  '']"

definition createModelTable :: string where
  "createModelTable = lines
     [[],
      ''    CREATE TABLE IF NOT EXISTS model('',
      ''      id'' @ TAB @ TAB @ TAB @ TAB @ ''INTEGER  PRIMARY KEY NOT NULL,'',
      ''      name'' @ TAB @ TAB @ TAB @ ''TEXT UNIQUE NOT NULL,'',
      TAB @ TAB @ TAB @ ''brand_id'' @ TAB @ ''INTEGER  NOT NULL,'',
      TAB @ TAB @ TAB @ ''UNIQUE(id, brand_id),'',
      ''      FOREIGN KEY(brand_id) REFERENCES brand(id) ON DELETE CASCADE,'',
      ''    );'',
      ''  '']"

definition createWindshieldTable :: string where
  "createWindshieldTable = lines
     [[],
      ''    CREATE TABLE IF NOT EXISTS windshield('',
      ''      id'' @ TAB @ TAB @ TAB @ TAB @ ''INTEGER  PRIMARY KEY NOT NULL,'',
      ''      type'' @ TAB @ TAB @ TAB @ ''TEXT NOT NULL,'',
      TAB @ TAB @ TAB @ ''year      TEXT NOT NULL,'',
      ''      stock     INTEGER NOT NULL,'',
      TAB @ TAB @ TAB @ ''brand_id  INTEGER NOT NULL,'',
      ''      model_id  INTEGER NOT NULL,'',
      ''      UNIQUE(id, model_id),'',
      ''      FOREIGN KEY(model_id) REFERENCES model(id) ON DELETE CASCADE,'',
      ''      FOREIGN KEY(brand_id) REFERENCES brand(id) ON DELETE CASCADE'',
      ''    );'',
      ''  '']"

text \<open>
  SQLite's reading of such a text, as far as these statements need it. The text is cut
  into tokens at white space and at the punctuation \<^verbatim>\<open>( ) , ; =\<close> (the statements of the
  source hold no quotes and no comments), and into statements at each \<^verbatim>\<open>;\<close>.
\<close>

datatype token = Word string | LParen | RParen | Comma | Semicolon | Equals

definition is_space :: "char \<Rightarrow> bool" where
  "is_space c = (c \<in> set [CHR '' '', CHR 0x09, CHR 0x0A, CHR 0x0C, CHR 0x0D])"

definition flush :: "string \<Rightarrow> token list" where
  "flush w = (if w = [] then [] else [Word (rev w)])"

fun tokens :: "string \<Rightarrow> string \<Rightarrow> token list" where
  "tokens w [] = flush w"
| "tokens w (c # cs) =
     (if is_space c then flush w @ tokens [] cs
      else if c = CHR ''('' then flush w @ LParen # tokens [] cs
      else if c = CHR '')'' then flush w @ RParen # tokens [] cs
      else if c = CHR '','' then flush w @ Comma # tokens [] cs
      else if c = CHR '';'' then flush w @ Semicolon # tokens [] cs
      else if c = CHR ''='' then flush w @ Equals # tokens [] cs
      else tokens (c # w) cs)"

fun statements :: "token list \<Rightarrow> token list \<Rightarrow> token list list" where
  "statements cur [] = (if cur = [] then [] else [rev cur])"
| "statements cur (Semicolon # ts) =
     (if cur = [] then statements [] ts else rev cur # statements [] ts)"
| "statements cur (t # ts) = statements (t # cur) ts"

text \<open>Keywords and table names are compared without regard to case.\<close>

definition upper :: "char \<Rightarrow> char" where
  "upper c =
     (case map_of (zip ''abcdefghijklmnopqrstuvwxyz'' ''ABCDEFGHIJKLMNOPQRSTUVWXYZ'') c of
        Some u \<Rightarrow> u
      | None \<Rightarrow> c)"

fun is_keyword :: "string \<Rightarrow> token \<Rightarrow> bool" where
  "is_keyword k (Word w) = (map upper w = k)"
| "is_keyword k _ = False"

text \<open>
  The entries between the parentheses of \<^verbatim>\<open>CREATE TABLE name ( ... )\<close>: column definitions
  and table constraints, separated by the commas that stand outside every nested
  parenthesis. \<open>entries\<close> is \<open>None\<close> when a parenthesis closes that was never opened or one
  stays open. SQLite's grammar wants a column definition or a constraint after each
  comma, so an entry with no token in it (two commas in a row, or a comma right before
  the closing parenthesis) is a syntax error. The inside of an entry is not checked
  further.
\<close>

fun entries :: "nat \<Rightarrow> token list \<Rightarrow> token list \<Rightarrow> token list list option" where
  "entries d cur [] = (if d = 0 then Some [rev cur] else None)"
| "entries d cur (Comma # ts) =
     (if d = 0 then map_option (Cons (rev cur)) (entries 0 [] ts)
      else entries d (Comma # cur) ts)"
| "entries d cur (LParen # ts) = entries (Suc d) (LParen # cur) ts"
| "entries d cur (RParen # ts) =
     (case d of 0 \<Rightarrow> None | Suc d' \<Rightarrow> entries d' (RParen # cur) ts)"
| "entries d cur (t # ts) = entries d (t # cur) ts"

definition column_list_ok :: "token list \<Rightarrow> bool" where
  "column_list_ok body =
     (case entries 0 [] body of
        None \<Rightarrow> False
      | Some es \<Rightarrow> [] \<notin> set es)"

text \<open>
  The statement forms of \<open>Migrate\<close>: \<^verbatim>\<open>PRAGMA name\<close>, which reads a setting;
  \<^verbatim>\<open>PRAGMA name = value\<close>, which sets one; and \<^verbatim>\<open>CREATE TABLE [IF NOT EXISTS] name (...)\<close>.
  \<open>parse\<close> answers \<open>None\<close> for a text SQLite rejects with a syntax error; statements of any
  other form are outside this model and get the same answer (the source gives \<open>Migrate\<close>
  none).
\<close>

datatype statement =
    PragmaQuery string
  | PragmaSet string string
  | CreateTable bool string

fun parse_table :: "bool \<Rightarrow> token list \<Rightarrow> statement option" where
  "parse_table ine (Word name # LParen # rest) =
     (if rest \<noteq> [] \<and> last rest = RParen \<and> column_list_ok (butlast rest)
      then Some (CreateTable ine name) else None)"
| "parse_table ine _ = None"

fun parse_pragma :: "token list \<Rightarrow> statement option" where
  "parse_pragma [Word name] = Some (PragmaQuery name)"
| "parse_pragma [Word name, Equals, Word v] = Some (PragmaSet name v)"
| "parse_pragma _ = None"

fun parse :: "token list \<Rightarrow> statement option" where
  "parse [] = None"
| "parse (k # ts) =
     (if is_keyword ''PRAGMA'' k then parse_pragma ts
      else if is_keyword ''CREATE'' k \<and> list_all2 is_keyword [''TABLE''] (take 1 ts) then
        (if list_all2 is_keyword [''IF'', ''NOT'', ''EXISTS''] (take 3 (drop 1 ts))
         then parse_table True (drop 4 ts)
         else parse_table False (drop 1 ts))
      else None)"

text \<open>
  Running a statement inside a transaction. A \<^verbatim>\<open>PRAGMA\<close> that reads a setting changes
  nothing; \<^verbatim>\<open>PRAGMA foreign_keys = ...\<close> is a no-op while a transaction is open, and no
  other setting is part of this state. \<^verbatim>\<open>CREATE TABLE\<close> adds the table, empty, when there is
  none of that name; when there is one, \<^verbatim>\<open>IF NOT EXISTS\<close> makes the statement do nothing and
  without it the statement fails. A table of another name is not part of this state.
\<close>

definition create_table :: "database \<Rightarrow> bool \<Rightarrow> string \<Rightarrow> error + database" where
  "create_table db ine name =
     (if map upper name = ''BRAND'' then
        (case brand_tbl db of
           None \<Rightarrow> Inr (db\<lparr>brand_tbl := Some []\<rparr>)
         | Some _ \<Rightarrow> if ine then Inr db else Inl (SqliteError table_exists))
      else if map upper name = ''MODEL'' then
        (case model_tbl db of
           None \<Rightarrow> Inr (db\<lparr>model_tbl := Some []\<rparr>)
         | Some _ \<Rightarrow> if ine then Inr db else Inl (SqliteError table_exists))
      else if map upper name = ''WINDSHIELD'' then
        (case windshield_tbl db of
           None \<Rightarrow> Inr (db\<lparr>windshield_tbl := Some []\<rparr>)
         | Some _ \<Rightarrow> if ine then Inr db else Inl (SqliteError table_exists))
      else Inr db)"

fun run :: "database \<Rightarrow> statement \<Rightarrow> error + database" where
  "run db (PragmaQuery name) = Inr db"
| "run db (PragmaSet name v) = Inr db"
| "run db (CreateTable ine name) = create_table db ine name"

text \<open>go-sqlite3's \<^verbatim>\<open>Exec\<close> prepares and runs the statements of the text one after the
  other and stops at the first error.\<close>

fun exec_statements :: "database \<Rightarrow> token list list \<Rightarrow> error option \<times> database" where
  "exec_statements db [] = (None, db)"
| "exec_statements db (s # ss) =
     (case parse s of
        None \<Rightarrow> (Some (SqliteError syntax_error), db)
      | Some st \<Rightarrow>
          (case run db st of
             Inl e \<Rightarrow> (Some e, db)
           | Inr db' \<Rightarrow> exec_statements db' ss))"

text \<open>
  A transaction (\<^verbatim>\<open>sqlx.Tx\<close>): \<open>committed\<close> is the database as it stands outside the
  transaction, \<open>work\<close> what the statements of the transaction have made of it. \<^verbatim>\<open>MustBegin\<close>
  and \<^verbatim>\<open>MustExec\<close> panic with the error of \<^verbatim>\<open>Begin\<close> and \<^verbatim>\<open>Exec\<close> (\<open>Inl\<close> here); beginning a
  transaction does not fail in this model, nor does \<^verbatim>\<open>Commit\<close>, which makes \<open>work\<close> the
  database.
\<close>

record Tx =
  committed :: database
  work :: database

definition MustBegin :: "database \<Rightarrow> error + Tx" where
  "MustBegin db = Inr \<lparr>committed = db, work = db\<rparr>"

definition Tx_Exec :: "Tx \<Rightarrow> string \<Rightarrow> error option \<times> Tx" where
  "Tx_Exec tx query =
     (case exec_statements (work tx) (statements [] (tokens [] query)) of
        (e, db') \<Rightarrow> (e, tx\<lparr>work := db'\<rparr>))"

definition MustExec :: "Tx \<Rightarrow> string \<Rightarrow> error + Tx" where
  "MustExec tx query =
     (case Tx_Exec tx query of
        (Some e, tx') \<Rightarrow> Inl e
      | (None, tx') \<Rightarrow> Inr tx')"

definition Commit :: "Tx \<Rightarrow> error option \<times> database" where
  "Commit tx = (None, work tx)"

text \<open>
  \<open>Migrate\<close> has no result: it returns or it panics. The second component is the database
  afterwards. A panic leaves the transaction uncommitted (the source never rolls back,
  and an uncommitted transaction is undone when its connection closes), so the database
  is then the one \<open>committed\<close> holds. The calls of \<^verbatim>\<open>Logger\<close> only write to the log and are
  left out (the logger is taken to be set up by \<^verbatim>\<open>InitLogger\<close>).
\<close>

datatype outcome = Returned | Panicked error

definition Migrate :: "SQLiteRepository \<Rightarrow> outcome \<times> database" where
  "Migrate db =
     (case MustBegin db of
        Inl e \<Rightarrow> (Panicked e, db)
      | Inr tx \<Rightarrow>
     (case MustExec tx setPragma of
        Inl e \<Rightarrow> (Panicked e, committed tx)
      | Inr tx1 \<Rightarrow>
     (case MustExec tx1 createBrandTable of
        Inl e \<Rightarrow> (Panicked e, committed tx1)
      | Inr tx2 \<Rightarrow>
     (case MustExec tx2 createModelTable of
        Inl e \<Rightarrow> (Panicked e, committed tx2)
      | Inr tx3 \<Rightarrow>
     (case MustExec tx3 createWindshieldTable of
        Inl e \<Rightarrow> (Panicked e, committed tx3)
      | Inr tx4 \<Rightarrow>
     (case Commit tx4 of
        (Some e, db') \<Rightarrow> (Panicked e, db')
      | (None, db') \<Rightarrow> (Returned, db')))))))"

subsection \<open>Deleting a brand row in the database itself\<close>

text \<open>
  No function of \<^verbatim>\<open>db.go\<close> deletes. \<^verbatim>\<open>DELETE FROM brand WHERE id = ?\<close>, run on the database
  directly, removes the brand row of that id. What happens to the rows that refer to
  it is decided by the schema and the connection: \<^verbatim>\<open>db.go:86\<close>, \<^verbatim>\<open>db.go:99\<close> and \<^verbatim>\<open>db.go:100\<close>
  declare \<^verbatim>\<open>ON DELETE CASCADE\<close>, which SQLite acts on only for a connection whose
  \<open>foreign_keys\<close> flag is on. Then the models of a deleted brand go with it, and so do the
  windshield rows of the brand and of those models (the statement is not prepared when
  the \<^verbatim>\<open>windshield\<close> table is there and its parent \<^verbatim>\<open>model\<close> is not). With the flag off only
  the brand row goes.
\<close>

definition exec_delete_brand :: "database \<Rightarrow> int \<Rightarrow> error + database" where
  "exec_delete_brand db i =
     (case brand_tbl db of
        None \<Rightarrow> Inl (SqliteError no_such_table)
      | Some bs \<Rightarrow>
          if \<not> foreign_keys db
          then Inr (db\<lparr>brand_tbl := Some (filter (\<lambda>b. b_id b \<noteq> i) bs)\<rparr>)
          else if windshield_tbl db \<noteq> None \<and> model_tbl db = None
          then Inl (SqliteError no_such_table)
          else if i \<notin> set (map b_id bs) then Inr db
          else
            Inr (db\<lparr>brand_tbl := Some (filter (\<lambda>b. b_id b \<noteq> i) bs),
                    model_tbl := map_option (filter (\<lambda>m. m_brand_id m \<noteq> i)) (model_tbl db),
                    windshield_tbl :=
                      map_option
                        (filter (\<lambda>w. w_brand_id w \<noteq> i \<and>
                           w_model_id w \<notin>
                             set (map m_id (filter (\<lambda>m. m_brand_id m = i) (model_rows db)))))
                        (windshield_tbl db)\<rparr>))"

subsection \<open>States the examples run on\<close>

text \<open>A database file that holds no table yet, one with the three tables and no row, one
  with the brand Toyota, one with Toyota's model Corolla too, and one with two windshield
  rows for it; the argument is the connection's \<open>foreign_keys\<close> flag.\<close>

definition no_tables :: "bool \<Rightarrow> database" where
  "no_tables fk =
     \<lparr>brand_tbl = None, model_tbl = None, windshield_tbl = None, foreign_keys = fk\<rparr>"

definition empty_tables :: "bool \<Rightarrow> database" where
  "empty_tables fk =
     \<lparr>brand_tbl = Some [], model_tbl = Some [], windshield_tbl = Some [], foreign_keys = fk\<rparr>"

definition toyota :: "bool \<Rightarrow> database" where
  "toyota fk =
     \<lparr>brand_tbl = Some [\<lparr>b_id = 1, b_name = ''Toyota''\<rparr>], model_tbl = Some [],
      windshield_tbl = Some [], foreign_keys = fk\<rparr>"

definition corolla :: "bool \<Rightarrow> database" where
  "corolla fk =
     \<lparr>brand_tbl = Some [\<lparr>b_id = 1, b_name = ''Toyota''\<rparr>],
      model_tbl = Some [\<lparr>m_id = 1, m_name = ''Corolla'', m_brand_id = 1\<rparr>],
      windshield_tbl = Some [], foreign_keys = fk\<rparr>"

definition stocked :: "bool \<Rightarrow> database" where
  "stocked fk =
     \<lparr>brand_tbl = Some [\<lparr>b_id = 1, b_name = ''Toyota''\<rparr>],
      model_tbl = Some [\<lparr>m_id = 1, m_name = ''Corolla'', m_brand_id = 1\<rparr>],
      windshield_tbl =
        Some [\<lparr>w_id = 1, w_type = WINDSHIELD, w_year = ''2001'', w_stock = 3,
               w_brand_id = 1, w_model_id = 1\<rparr>,
              \<lparr>w_id = 2, w_type = BACK, w_year = ''2001'', w_stock = 5,
               w_brand_id = 1, w_model_id = 1\<rparr>],
      foreign_keys = fk\<rparr>"

section \<open>Properties\<close>

subsection \<open>The engine always finds a rowid\<close>

text \<open>Among the first \<open>length ids + 1\<close> positive integers one is not in \<open>ids\<close>, so the
  engine never runs out of rowids and an insert fails for other reasons only.\<close>

lemma unused_rowid_Some: "\<exists>r. unused_rowid ids = Some r"
proof (rule ccontr)
  assume "\<not> (\<exists>r. unused_rowid ids = Some r)"
  then have "unused_rowid ids = None" by simp
  then have "\<not> (\<exists>r. r \<in> set (map int [1 ..< length ids + 2]) \<and> r \<notin> set ids)"
    unfolding unused_rowid_def find_None_iff .
  then have sub: "int ` {1 ..< length ids + 2} \<subseteq> set ids"
    by (metis (no_types, lifting) set_map set_upt subsetI)
  have "card (int ` {1 ..< length ids + 2}) = length ids + 1"
    by (simp add: card_image)
  moreover have "card (int ` {1 ..< length ids + 2}) \<le> card (set ids)"
    using sub by (simp add: card_mono)
  moreover have "card (set ids) \<le> length ids" by (rule card_length)
  ultimately show False by simp
qed

lemma new_rowid_Inr: "\<exists>r. new_rowid ids = Inr r"
  using unused_rowid_Some [of ids]
  by (auto simp: new_rowid_def split: list.splits option.splits)

lemma unique_code: "ErrConstraintUnique = 2067"
  by (simp add: ErrConstraintUnique_def Extend_def ErrConstraint_def)

lemma foreign_key_code: "ErrConstraintForeignKey = 787"
  by (simp add: ErrConstraintForeignKey_def Extend_def ErrConstraint_def)

subsection \<open>Schema setup\<close>

text \<open>What the engine makes of the four statements: the pragma reads the flag; the column
  lists of \<^verbatim>\<open>brand\<close> and \<^verbatim>\<open>model\<close> end in a comma (\<^verbatim>\<open>db.go:77-78\<close>, \<^verbatim>\<open>db.go:86-87\<close>) and are
  syntax errors; the one of \<^verbatim>\<open>windshield\<close> is well formed.\<close>

lemma setPragma_statements:
  "map parse (statements [] (tokens [] setPragma)) = [Some (PragmaQuery ''foreign_keys'')]"
  by code_simp

lemma createBrandTable_tokens:
  "statements [] (tokens [] createBrandTable) =
     [[Word ''CREATE'', Word ''TABLE'', Word ''IF'', Word ''NOT'', Word ''EXISTS'',
       Word ''brand'', LParen,
       Word ''id'', Word ''INTEGER'', Word ''PRIMARY'', Word ''KEY'', Word ''NOT'',
       Word ''NULL'', Comma,
       Word ''name'', Word ''TEXT'', Word ''UNIQUE'', Word ''NOT'', Word ''NULL'', Comma,
       RParen]]"
  by code_simp

lemma createBrandTable_statements:
  "map parse (statements [] (tokens [] createBrandTable)) = [None]"
  by code_simp

lemma createModelTable_statements:
  "map parse (statements [] (tokens [] createModelTable)) = [None]"
  by code_simp

lemma createWindshieldTable_statements:
  "map parse (statements [] (tokens [] createWindshieldTable))
     = [Some (CreateTable True ''windshield'')]"
  by code_simp

text \<open>The statement for \<^verbatim>\<open>brand\<close> with the last comma taken out is accepted and creates the
  table.\<close>

lemma brand_statement_without_last_comma:
  "MustExec \<lparr>committed = no_tables False, work = no_tables False\<rparr>
     ''CREATE TABLE IF NOT EXISTS brand(id INTEGER PRIMARY KEY NOT NULL, name TEXT UNIQUE NOT NULL);''
   = Inr \<lparr>committed = no_tables False, work = (no_tables False)\<lparr>brand_tbl := Some []\<rparr>\<rparr>"
  by code_simp

lemma MustExec_setPragma: "MustExec tx setPragma = Inr tx"
proof -
  obtain s where s: "statements [] (tokens [] setPragma) = [s]"
      and p: "parse s = Some (PragmaQuery ''foreign_keys'')"
    using setPragma_statements by auto
  show ?thesis by (simp add: MustExec_def Tx_Exec_def s p)
qed

lemma MustExec_createBrandTable:
  "MustExec tx createBrandTable = Inl (SqliteError syntax_error)"
proof -
  obtain s where s: "statements [] (tokens [] createBrandTable) = [s]"
      and p: "parse s = None"
    using createBrandTable_statements by auto
  show ?thesis by (simp add: MustExec_def Tx_Exec_def s p)
qed

text \<open>No statement of a transaction touches the database outside it.\<close>

lemma MustExec_committed: "MustExec tx query = Inr tx' \<Longrightarrow> committed tx' = committed tx"
  by (auto simp: MustExec_def Tx_Exec_def split: prod.splits option.splits)

text \<open>Whichever call of \<open>Migrate\<close> panics, the database is the one it started from. The
  proof follows the calls and does not look at the statements.\<close>

lemma Migrate_panic_keeps_database:
  assumes "Migrate db = (Panicked e, db')"
  shows "db' = db"
proof -
  let ?tx = "\<lparr>committed = db, work = db\<rparr>"
  show ?thesis
  proof (cases "MustExec ?tx setPragma")
    case (Inl a)
    then show ?thesis using assms by (simp add: Migrate_def MustBegin_def)
  next
    case (Inr tx1)
    note one = this
    note c1 = MustExec_committed [OF Inr]
    show ?thesis
    proof (cases "MustExec tx1 createBrandTable")
      case (Inl a)
      then show ?thesis using assms one c1
        by (simp add: Migrate_def MustBegin_def)
    next
      case (Inr tx2)
      note two = this
      note c2 = MustExec_committed [OF Inr]
      show ?thesis
      proof (cases "MustExec tx2 createModelTable")
        case (Inl a)
        then show ?thesis using assms one two c1 c2
          by (simp add: Migrate_def MustBegin_def)
      next
        case (Inr tx3)
        note three = this
        note c3 = MustExec_committed [OF Inr]
        show ?thesis
        proof (cases "MustExec tx3 createWindshieldTable")
          case (Inl a)
          then show ?thesis
            using assms one two three c1 c2 c3
            by (simp add: Migrate_def MustBegin_def)
        next
          case (Inr tx4)
          then show ?thesis
            using assms one two three
            by (simp add: Migrate_def MustBegin_def Commit_def)
        qed
      qed
    qed
  qed
qed

text \<open>
  Claim C1 says that \<open>Migrate\<close> creates the three tables, on every state and also when
  they exist already, and turns foreign-key enforcement on. The code does neither: on
  every database, \<open>Migrate\<close> panics at \<^verbatim>\<open>tx.MustExec(createBrandTable)\<close> with the engine's
  syntax error and leaves the database as it was, tables and \<open>foreign_keys\<close> flag alike.
\<close>

theorem Migrate_panics: "Migrate db = (Panicked (SqliteError syntax_error), db)"
  by (simp add: Migrate_def MustBegin_def MustExec_setPragma MustExec_createBrandTable)

text \<open>
  Claim C7. When a statement of \<open>Migrate\<close> fails, no partial schema stays behind and the
  failure is a panic, not an error value: either \<open>Migrate\<close> panics and the database is the
  one it started from, or it returns and the three tables exist.
\<close>

theorem Migrate_all_or_nothing:
  "(\<exists>e. Migrate db = (Panicked e, db)) \<or>
   (\<exists>db'. Migrate db = (Returned, db') \<and>
      brand_tbl db' \<noteq> None \<and> model_tbl db' \<noteq> None \<and> windshield_tbl db' \<noteq> None)"
proof (cases "Migrate db")
  case (Pair out db')
  show ?thesis
  proof (cases out)
    case Returned
    then have "Migrate db = (Returned, db')" using Pair by simp
    then have False
      by (simp add: Migrate_def MustBegin_def MustExec_setPragma MustExec_createBrandTable)
    then show ?thesis ..
  next
    case (Panicked e)
    then have p: "Migrate db = (Panicked e, db')" using Pair by simp
    then have "db' = db" by (rule Migrate_panic_keeps_database)
    then show ?thesis using p by blast
  qed
qed

subsection \<open>The insert operations\<close>

text \<open>Whenever an insert operation returns an error, it returns the identity 0 and the
  database is as it was.\<close>

lemma CreateBrand_error:
  "CreateBrand db name = ((i, Some e), db') \<Longrightarrow> i = 0 \<and> db' = db"
  by (auto simp: CreateBrand_def LastInsertId_def
      split: sum.splits option.splits if_splits prod.splits)

lemma CreateModel_error:
  "CreateModel db name brand_id = ((i, Some e), db') \<Longrightarrow> i = 0 \<and> db' = db"
  by (auto simp: CreateModel_def LastInsertId_def
      split: sum.splits option.splits if_splits prod.splits)

lemma CreateWindshield_error:
  "CreateWindshield db typename year stock brand_id model_id = ((i, Some e), db')
     \<Longrightarrow> i = 0 \<and> db' = db"
  by (auto simp: CreateWindshield_def LastInsertId_def
      split: sum.splits option.splits if_splits prod.splits)

text \<open>The engine's answers to the insert into \<^verbatim>\<open>brand\<close>.\<close>

lemma exec_insert_brand_duplicate:
  "name \<in> set (map b_name (brand_rows db)) \<Longrightarrow>
     exec_insert_brand db name = Inl (SqliteError unique_failed)"
  using new_rowid_Inr [of "map b_id (brand_rows db)"]
  by (auto simp: exec_insert_brand_def brand_rows_def split: option.splits)

lemma exec_insert_brand_Inl:
  "exec_insert_brand db name = Inl e \<Longrightarrow>
     (e = SqliteError unique_failed \<and> name \<in> set (map b_name (brand_rows db))) \<or>
     (e = SqliteError no_such_table \<and> brand_tbl db = None)"
  using new_rowid_Inr [of "map b_id (brand_rows db)"]
  by (auto simp: exec_insert_brand_def brand_rows_def
      split: option.splits sum.splits if_splits)

lemma CreateBrand_stores_row:
  "CreateBrand db name = ((i, None), db') \<Longrightarrow>
     brand_rows db' = brand_rows db @ [\<lparr>b_id = i, b_name = name\<rparr>] \<and>
     name \<notin> set (map b_name (brand_rows db))"
  by (auto simp: CreateBrand_def exec_insert_brand_def LastInsertId_def brand_rows_def
      split: sum.splits option.splits if_splits prod.splits)

text \<open>
  Claim C2. For every state and every name: if a brand row with that name exists,
  \<open>CreateBrand\<close> returns \<open>ErrDuplicate\<close> (with identity 0) and leaves the database, so the
  brand table, as it was; and when it returns an error other than \<open>ErrDuplicate\<close>, no brand
  row has that name, the error is the one the engine gave for the insert, passed on as
  it is, it is no unique-constraint violation, and the database is as it was.
\<close>

theorem CreateBrand_duplicate:
  "(name \<in> set (map b_name (brand_rows db)) \<longrightarrow>
      CreateBrand db name = ((0, Some ErrDuplicate), db)) \<and>
   (CreateBrand db name = ((i, Some e), db') \<and> e \<noteq> ErrDuplicate \<longrightarrow>
      name \<notin> set (map b_name (brand_rows db)) \<and>
      exec_insert_brand db name = Inl e \<and>
      (\<forall>se. e = SqliteError se \<longrightarrow> ExtendedCode se \<noteq> ErrConstraintUnique) \<and>
      db' = db)"
proof (intro conjI impI)
  assume "name \<in> set (map b_name (brand_rows db))"
  then have "exec_insert_brand db name = Inl (SqliteError unique_failed)"
    by (rule exec_insert_brand_duplicate)
  then show "CreateBrand db name = ((0, Some ErrDuplicate), db)"
    by (simp add: CreateBrand_def unique_failed_def)
next
  assume a: "CreateBrand db name = ((i, Some e), db') \<and> e \<noteq> ErrDuplicate"
  then obtain x where x: "exec_insert_brand db name = Inl x"
    by (cases "exec_insert_brand db name")
       (auto simp: CreateBrand_def LastInsertId_def split: prod.splits)
  have e: "e = x \<and> (\<forall>se. x = SqliteError se \<longrightarrow> ExtendedCode se \<noteq> ErrConstraintUnique)"
    using a x by (cases x) (auto simp: CreateBrand_def split: if_splits)
  have "x \<noteq> SqliteError unique_failed"
    using e by (auto simp: unique_failed_def)
  then have n: "x = SqliteError no_such_table \<and> brand_tbl db = None"
    using exec_insert_brand_Inl [OF x] by blast
  show "name \<notin> set (map b_name (brand_rows db))"
    using n by (simp add: brand_rows_def)
  show "exec_insert_brand db name = Inl e" using x e by simp
  show "\<forall>se. e = SqliteError se \<longrightarrow> ExtendedCode se \<noteq> ErrConstraintUnique" using e by simp
  show "db' = db" using a CreateBrand_error by blast
qed

text \<open>A second Toyota is a duplicate; in a file without the table the engine's error
  comes back as it is.\<close>

theorem CreateBrand_duplicate_witness:
  "CreateBrand (toyota False) ''Toyota'' = ((0, Some ErrDuplicate), toyota False) \<and>
   CreateBrand (no_tables False) ''Toyota''
     = ((0, Some (SqliteError no_such_table)), no_tables False) \<and>
   ''Toyota'' \<notin> set (map b_name (brand_rows (no_tables False))) \<and>
   exec_insert_brand (no_tables False) ''Toyota'' = Inl (SqliteError no_such_table) \<and>
   ExtendedCode no_such_table \<noteq> ErrConstraintUnique"
proof -
  have h1: "''Toyota'' \<in> set (map b_name (brand_rows (toyota False)))"
    by (simp add: toyota_def brand_rows_def)
  have h2: "CreateBrand (no_tables False) ''Toyota''
              = ((0, Some (SqliteError no_such_table)), no_tables False) \<and>
            SqliteError no_such_table \<noteq> ErrDuplicate"
    by (simp add: CreateBrand_def exec_insert_brand_def no_tables_def no_such_table_def
        unique_code ErrError_def)
  show ?thesis
    using CreateBrand_duplicate
      [where db = "toyota False" and name = "''Toyota''"] h1
      CreateBrand_duplicate
      [where db = "no_tables False" and name = "''Toyota''" and i = 0
         and e = "SqliteError no_such_table" and db' = "no_tables False"] h2
    by simp
qed

text \<open>The engine's answer to the insert into \<^verbatim>\<open>model\<close> when the brand is not there, the
  name is new and foreign keys are enforced.\<close>

lemma exec_insert_model_missing_brand:
  assumes "foreign_keys db" and "brand_id \<notin> set (map b_id (brand_rows db))"
    and "name \<notin> set (map m_name (model_rows db))"
  shows "exec_insert_model db name brand_id = Inl (SqliteError no_such_table) \<or>
         exec_insert_model db name brand_id = Inl (SqliteError foreign_key_failed)"
  using assms new_rowid_Inr [of "map m_id (model_rows db)"]
  by (auto simp: exec_insert_model_def model_rows_def split: option.splits)

text \<open>Where the insert into \<^verbatim>\<open>model\<close> can be prepared, a taken name is a duplicate, whether
  or not the brand is there.\<close>

lemma CreateModel_taken_name:
  assumes "name \<in> set (map m_name (model_rows db))"
    and "foreign_keys db \<longrightarrow> brand_tbl db \<noteq> None"
  shows "CreateModel db name brand_id = ((0, Some ErrDuplicate), db)"
proof -
  have "exec_insert_model db name brand_id = Inl (SqliteError unique_failed)"
    using assms new_rowid_Inr [of "map m_id (model_rows db)"]
    by (auto simp: exec_insert_model_def model_rows_def split: option.splits)
  then show ?thesis
    by (simp add: CreateModel_def unique_failed_def)
qed

text \<open>
  Claim C5, as stated, fails at two inputs. No brand row has id 99 in either. In the
  database with Toyota and its model Corolla, on a connection that enforces foreign
  keys, \<open>CreateModel\<close> of the taken name Corolla for brand 99 returns \<open>ErrDuplicate\<close>: the
  engine checks the uniqueness of the name before the foreign key. In the database with
  Toyota and no model, on a connection that does not enforce foreign keys, which is how a
  connection starts, \<open>CreateModel\<close> of Corolla for brand 99 succeeds and the model table
  gets a row for a brand that is not there.
\<close>

theorem CreateModel_missing_brand_counterexample:
  "99 \<notin> set (map b_id (brand_rows (corolla True))) \<and>
   CreateModel (corolla True) ''Corolla'' 99 = ((0, Some ErrDuplicate), corolla True) \<and>
   99 \<notin> set (map b_id (brand_rows (toyota False))) \<and>
   CreateModel (toyota False) ''Corolla'' 99
     = ((1, None),
        (toyota False)\<lparr>model_tbl :=
           Some [\<lparr>m_id = 1, m_name = ''Corolla'', m_brand_id = 99\<rparr>]\<rparr>)"
  by (simp add: CreateModel_def exec_insert_model_def new_rowid_def max_rowid_def
      LastInsertId_def toyota_def corolla_def brand_rows_def unique_failed_def)

text \<open>
  Claim C5, amended. For every state whose connection enforces foreign keys, every name
  that no model row has yet and every brand id: if no brand row has that id,
  \<open>CreateModel\<close> returns identity 0 and the engine's error, which is no unique-constraint
  violation and not \<open>ErrDuplicate\<close> (it is the foreign-key violation when the two tables
  exist), and the database, so the model table, is as it was.
\<close>

theorem CreateModel_missing_brand:
  assumes "foreign_keys db"
    and "brand_id \<notin> set (map b_id (brand_rows db))"
    and "name \<notin> set (map m_name (model_rows db))"
  shows "\<exists>e. CreateModel db name brand_id = ((0, Some (SqliteError e)), db) \<and>
           ExtendedCode e \<noteq> ErrConstraintUnique \<and>
           SqliteError e \<noteq> ErrDuplicate \<and>
           (brand_tbl db \<noteq> None \<and> model_tbl db \<noteq> None \<longrightarrow> e = foreign_key_failed)"
proof -
  from exec_insert_model_missing_brand [OF assms]
  show ?thesis
  proof
    assume a: "exec_insert_model db name brand_id = Inl (SqliteError no_such_table)"
    have "brand_tbl db = None \<or> model_tbl db = None"
      using a assms new_rowid_Inr [of "map m_id (model_rows db)"]
      by (auto simp: exec_insert_model_def model_rows_def no_such_table_def
          foreign_key_failed_def split: option.splits if_splits)
    then show ?thesis
      using a by (auto simp: CreateModel_def no_such_table_def unique_code ErrError_def)
  next
    assume a: "exec_insert_model db name brand_id = Inl (SqliteError foreign_key_failed)"
    show ?thesis
      using a
      by (auto simp: CreateModel_def foreign_key_failed_def unique_code foreign_key_code)
  qed
qed

theorem CreateModel_missing_brand_witness:
  "foreign_keys (toyota True) \<and>
   99 \<notin> set (map b_id (brand_rows (toyota True))) \<and>
   ''Corolla'' \<notin> set (map m_name (model_rows (toyota True))) \<and>
   CreateModel (toyota True) ''Corolla'' 99
     = ((0, Some (SqliteError foreign_key_failed)), toyota True)"
proof -
  have h: "foreign_keys (toyota True)"
      "99 \<notin> set (map b_id (brand_rows (toyota True)))"
      "''Corolla'' \<notin> set (map m_name (model_rows (toyota True)))"
    by (simp_all add: toyota_def brand_rows_def model_rows_def)
  have t: "brand_tbl (toyota True) \<noteq> None \<and> model_tbl (toyota True) \<noteq> None"
    by (simp add: toyota_def)
  show ?thesis
    using CreateModel_missing_brand [OF h] h t by auto
qed

text \<open>
  Claim C10. Whenever \<open>CreateBrand\<close>, \<open>CreateModel\<close> or \<open>CreateWindshield\<close> returns an error
  that is not \<^verbatim>\<open>nil\<close> (\<open>ErrDuplicate\<close> or any other), the identity returned beside it is 0,
  for every input and every state.
\<close>

theorem create_error_identity_zero:
  "(snd (fst (CreateBrand db name)) \<noteq> None \<longrightarrow> fst (fst (CreateBrand db name)) = 0) \<and>
   (snd (fst (CreateModel db name brand_id)) \<noteq> None \<longrightarrow>
      fst (fst (CreateModel db name brand_id)) = 0) \<and>
   (snd (fst (CreateWindshield db typename year stock brand_id model_id)) \<noteq> None \<longrightarrow>
      fst (fst (CreateWindshield db typename year stock brand_id model_id)) = 0)"
proof (intro conjI impI)
  assume "snd (fst (CreateBrand db name)) \<noteq> None"
  then obtain i e db' where "CreateBrand db name = ((i, Some e), db')"
    by (metis option.exhaust prod.collapse)
  then show "fst (fst (CreateBrand db name)) = 0"
    using CreateBrand_error by fastforce
next
  assume "snd (fst (CreateModel db name brand_id)) \<noteq> None"
  then obtain i e db' where "CreateModel db name brand_id = ((i, Some e), db')"
    by (metis option.exhaust prod.collapse)
  then show "fst (fst (CreateModel db name brand_id)) = 0"
    using CreateModel_error by fastforce
next
  assume "snd (fst (CreateWindshield db typename year stock brand_id model_id)) \<noteq> None"
  then obtain i e db' where
    "CreateWindshield db typename year stock brand_id model_id = ((i, Some e), db')"
    by (metis option.exhaust prod.collapse)
  then show "fst (fst (CreateWindshield db typename year stock brand_id model_id)) = 0"
    using CreateWindshield_error by fastforce
qed

text \<open>The three at work: a duplicate brand name, a model for a brand that is not there
  under foreign-key enforcement, and a windshield row in a file without tables.\<close>

theorem create_error_identity_zero_witness:
  "CreateBrand (toyota False) ''Toyota'' = ((0, Some ErrDuplicate), toyota False) \<and>
   CreateModel (toyota True) ''Corolla'' 99
     = ((0, Some (SqliteError foreign_key_failed)), toyota True) \<and>
   CreateWindshield (no_tables False) BACK ''2001'' 3 1 1
     = ((0, Some (SqliteError no_such_table)), no_tables False)"
proof -
  have b: "snd (fst (CreateBrand (toyota False) ''Toyota'')) = Some ErrDuplicate"
    by (simp add: CreateBrand_def exec_insert_brand_def toyota_def new_rowid_def
        max_rowid_def unique_failed_def)
  have m: "snd (fst (CreateModel (toyota True) ''Corolla'' 99))
             = Some (SqliteError foreign_key_failed)"
    by (simp add: CreateModel_def exec_insert_model_def toyota_def new_rowid_def
        brand_rows_def foreign_key_failed_def unique_code foreign_key_code)
  have w: "snd (fst (CreateWindshield (no_tables False) BACK ''2001'' 3 1 1))
             = Some (SqliteError no_such_table)"
    by (simp add: CreateWindshield_def exec_insert_windshield_def no_tables_def
        no_such_table_def unique_code ErrError_def)
  have z: "fst (fst (CreateBrand (toyota False) ''Toyota'')) = 0"
      "fst (fst (CreateModel (toyota True) ''Corolla'' 99)) = 0"
      "fst (fst (CreateWindshield (no_tables False) BACK ''2001'' 3 1 1)) = 0"
    using create_error_identity_zero
      [where db = "toyota False" and name = "''Toyota''"] b
      create_error_identity_zero
      [where db = "toyota True" and name = "''Corolla''" and brand_id = 99] m
      create_error_identity_zero
      [where db = "no_tables False" and typename = BACK and year = "''2001''"
         and stock = 3 and brand_id = 1 and model_id = 1] w
    by simp_all
  have d: "snd (CreateBrand (toyota False) ''Toyota'') = toyota False"
      "snd (CreateModel (toyota True) ''Corolla'' 99) = toyota True"
      "snd (CreateWindshield (no_tables False) BACK ''2001'' 3 1 1) = no_tables False"
    using b m w CreateBrand_error CreateModel_error CreateWindshield_error
    by (metis prod.collapse)+
  show ?thesis
    using b m w z d by (metis prod.collapse)
qed

subsection \<open>The stock update\<close>

lemma UpdateWindshieldStock_Some:
  "windshield_tbl db = Some ws \<Longrightarrow>
     UpdateWindshieldStock db i stock =
       (None, db\<lparr>windshield_tbl :=
                   Some (map (\<lambda>w. if w_id w = i then w\<lparr>w_stock := stock\<rparr> else w) ws)\<rparr>)"
  by (simp add: UpdateWindshieldStock_def exec_update_windshield_stock_def)

lemma update_no_match:
  "i \<notin> set (map w_id ws) \<Longrightarrow>
     map (\<lambda>w. if w_id w = i then w\<lparr>w_stock := stock\<rparr> else w) ws = ws"
  by (induction ws) auto

lemma two_elements: "length xs = 2 \<Longrightarrow> xs = [xs ! 0, xs ! 1]"
  by (cases xs; cases "tl xs") auto

text \<open>Without the windshield table the update is the engine's error and changes
  nothing.\<close>

lemma UpdateWindshieldStock_no_table:
  "windshield_tbl db = None \<Longrightarrow>
     UpdateWindshieldStock db i stock = (Some (SqliteError no_such_table), db)"
  by (simp add: UpdateWindshieldStock_def exec_update_windshield_stock_def)

text \<open>
  Claim C3, as stated for every state, fails in a database that holds no windshield
  table: no windshield row has id 1 there, and \<open>UpdateWindshieldStock\<close> returns the engine's
  error, not \<^verbatim>\<open>nil\<close>.
\<close>

theorem UpdateWindshieldStock_frame_counterexample:
  "windshield_tbl (no_tables False) = None \<and>
   UpdateWindshieldStock (no_tables False) 1 7
     = (Some (SqliteError no_such_table), no_tables False)"
  by (simp add: UpdateWindshieldStock_def exec_update_windshield_stock_def no_tables_def)

text \<open>
  Claim C3, amended. In every state in which the windshield table exists, and for every
  id and new stock: if no windshield row has that id, \<open>UpdateWindshieldStock\<close> returns no
  error and the database is as it was; and in any case it returns no error, nothing but
  the windshield table changes, the table keeps its length, and each row stays as it is
  but for the stock of a row with that id, which becomes the new stock.
\<close>

theorem UpdateWindshieldStock_frame:
  assumes "windshield_tbl db = Some ws"
  shows "(i \<notin> set (map w_id ws) \<longrightarrow> UpdateWindshieldStock db i stock = (None, db)) \<and>
         (\<exists>ws'. UpdateWindshieldStock db i stock = (None, db\<lparr>windshield_tbl := Some ws'\<rparr>) \<and>
            length ws' = length ws \<and>
            (\<forall>k < length ws.
               ws' ! k =
                 (if w_id (ws ! k) = i then (ws ! k)\<lparr>w_stock := stock\<rparr> else ws ! k)))"
proof
  let ?ws' = "map (\<lambda>w. if w_id w = i then w\<lparr>w_stock := stock\<rparr> else w) ws"
  have u: "UpdateWindshieldStock db i stock = (None, db\<lparr>windshield_tbl := Some ?ws'\<rparr>)"
    using assms by (rule UpdateWindshieldStock_Some)
  have "i \<notin> set (map w_id ws) \<longrightarrow> ?ws' = ws"
    by (simp add: update_no_match)
  then show "i \<notin> set (map w_id ws) \<longrightarrow> UpdateWindshieldStock db i stock = (None, db)"
    using u assms by auto
  have "length ?ws' = length ws" by simp
  moreover have "\<forall>k < length ws.
      ?ws' ! k = (if w_id (ws ! k) = i then (ws ! k)\<lparr>w_stock := stock\<rparr> else ws ! k)"
    by simp
  ultimately show "\<exists>ws'. UpdateWindshieldStock db i stock
        = (None, db\<lparr>windshield_tbl := Some ws'\<rparr>) \<and>
      length ws' = length ws \<and>
      (\<forall>k < length ws.
         ws' ! k = (if w_id (ws ! k) = i then (ws ! k)\<lparr>w_stock := stock\<rparr> else ws ! k))"
    using u by blast
qed

text \<open>Of two rows, the update of id 1 changes the stock of the first and nothing else;
  the update of id 9, which no row has, changes nothing.\<close>

theorem UpdateWindshieldStock_frame_witness:
  "UpdateWindshieldStock (stocked False) 1 7 =
     (None, (stocked False)\<lparr>windshield_tbl :=
        Some [\<lparr>w_id = 1, w_type = WINDSHIELD, w_year = ''2001'', w_stock = 7,
               w_brand_id = 1, w_model_id = 1\<rparr>,
              \<lparr>w_id = 2, w_type = BACK, w_year = ''2001'', w_stock = 5,
               w_brand_id = 1, w_model_id = 1\<rparr>]\<rparr>) \<and>
   UpdateWindshieldStock (stocked False) 9 7 = (None, stocked False)"
proof -
  let ?r1 = "\<lparr>w_id = 1, w_type = WINDSHIELD, w_year = ''2001'', w_stock = 3,
              w_brand_id = 1, w_model_id = 1\<rparr>"
  let ?r2 = "\<lparr>w_id = 2, w_type = BACK, w_year = ''2001'', w_stock = 5,
              w_brand_id = 1, w_model_id = 1\<rparr>"
  have h: "windshield_tbl (stocked False) = Some [?r1, ?r2]"
    by (simp add: stocked_def)
  obtain ws' where
    u: "UpdateWindshieldStock (stocked False) 1 7
          = (None, (stocked False)\<lparr>windshield_tbl := Some ws'\<rparr>)" and
    l: "length ws' = 2" and
    n: "\<forall>k < 2. ws' ! k =
          (if w_id ([?r1, ?r2] ! k) = 1 then ([?r1, ?r2] ! k)\<lparr>w_stock := 7\<rparr>
           else [?r1, ?r2] ! k)"
    using UpdateWindshieldStock_frame [OF h, of 1 7] by auto
  have "ws' ! 0 = ?r1\<lparr>w_stock := 7\<rparr>" "ws' ! 1 = ?r2"
    using n by simp_all
  then have "ws' = [?r1\<lparr>w_stock := 7\<rparr>, ?r2]"
    using two_elements [OF l] by simp
  then have first: "UpdateWindshieldStock (stocked False) 1 7 =
      (None, (stocked False)\<lparr>windshield_tbl := Some [?r1\<lparr>w_stock := 7\<rparr>, ?r2]\<rparr>)"
    using u by simp
  have "UpdateWindshieldStock (stocked False) 9 7 = (None, stocked False)"
    using UpdateWindshieldStock_frame [OF h, of 9 7] by simp
  then show ?thesis using first by simp
qed

subsection \<open>The queries\<close>

text \<open>On every database each of the four queries returns the empty slice together with
  an error: the engine's when a table is missing, and otherwise the refusal of \<^verbatim>\<open>Get\<close> to
  scan a result of two, three, four and six columns into a slice. None ever returns a
  row.\<close>

lemma GetAllBrands_error:
  "GetAllBrands db =
     (Some [], Some (case brand_tbl db of
                       None \<Rightarrow> SqliteError no_such_table
                     | Some bs \<Rightarrow> ScannableDestColumns 2))"
  by (simp add: GetAllBrands_def Get_slice_def query_all_brands_def split: option.splits)

lemma GetModelsByBrandId_error:
  "GetModelsByBrandId db i =
     (Some [], Some (case model_tbl db of
                       None \<Rightarrow> SqliteError no_such_table
                     | Some ms \<Rightarrow> ScannableDestColumns 3))"
  by (simp add: GetModelsByBrandId_def Get_slice_def query_models_by_brand_id_def
      split: option.splits)

lemma GetModelsByBrandName_error:
  "GetModelsByBrandName db name =
     (Some [], Some (if model_tbl db = None \<or> brand_tbl db = None
                     then SqliteError no_such_table else ScannableDestColumns 4))"
  by (auto simp: GetModelsByBrandName_def Get_slice_def query_models_by_brand_name_def
      split: option.splits)

lemma GetWindShieldsByModelId_error:
  "GetWindShieldsByModelId db i =
     (Some [], Some (case windshield_tbl db of
                       None \<Rightarrow> SqliteError no_such_table
                     | Some ws \<Rightarrow> ScannableDestColumns 6))"
  by (simp add: GetWindShieldsByModelId_def Get_slice_def query_windshields_by_model_id_def
      split: option.splits)

text \<open>
  Claim C4 says that a query whose key matches no row returns the empty sequence and no
  error. The code returns the empty slice, but with an error: \<open>GetAllBrands\<close> on an empty
  brand table, and \<open>GetModelsByBrandId\<close>, \<open>GetModelsByBrandName\<close> and
  \<open>GetWindShieldsByModelId\<close> for a brand that has no model, where the engine finds no row.
\<close>

theorem queries_fail_when_nothing_matches:
  "query_all_brands (empty_tables False) = Inr \<lparr>Columns = [''id'', ''name''], Data = []\<rparr> \<and>
   GetAllBrands (empty_tables False) = (Some [], Some (ScannableDestColumns 2)) \<and>
   query_models_by_brand_id (toyota False) 1
     = Inr \<lparr>Columns = [''id'', ''name'', ''brand_id''], Data = []\<rparr> \<and>
   GetModelsByBrandId (toyota False) 1 = (Some [], Some (ScannableDestColumns 3)) \<and>
   GetModelsByBrandName (toyota False) ''Toyota'' = (Some [], Some (ScannableDestColumns 4)) \<and>
   GetWindShieldsByModelId (toyota False) 1 = (Some [], Some (ScannableDestColumns 6))"
  by (simp add: GetAllBrands_error GetModelsByBrandId_error GetModelsByBrandName_error
      GetWindShieldsByModelId_error query_all_brands_def query_models_by_brand_id_def
      empty_tables_def toyota_def)

text \<open>
  Claim C6 says that after \<open>CreateBrand\<close> of Toyota has succeeded, \<open>GetAllBrands\<close> returns
  one entry of that name with the identity \<open>CreateBrand\<close> returned. On the empty brand table
  \<open>CreateBrand\<close> returns identity 1 and the row is stored, but \<open>GetAllBrands\<close> on the
  resulting state returns no entry and an error.
\<close>

theorem CreateBrand_then_GetAllBrands_fails:
  "CreateBrand (empty_tables False) ''Toyota'' = ((1, None), toyota False) \<and>
   brand_rows (toyota False) = [\<lparr>b_id = 1, b_name = ''Toyota''\<rparr>] \<and>
   GetAllBrands (toyota False) = (Some [], Some (ScannableDestColumns 2))"
  by (simp add: GetAllBrands_error CreateBrand_def exec_insert_brand_def new_rowid_def
      LastInsertId_def empty_tables_def toyota_def brand_rows_def)

text \<open>
  Claim C9 says that \<open>GetModelsByBrandName\<close> returns the models of the brand of that name,
  each with the brand name. For Toyota with its model Corolla the engine's join has the
  one row, but \<open>GetModelsByBrandName\<close> returns no model and an error.
\<close>

theorem GetModelsByBrandName_returns_no_model:
  "query_models_by_brand_name (corolla False) ''Toyota'' =
     Inr \<lparr>Columns = [''name'', ''id'', ''brand_id'', ''brand_name''],
          Data = [[Text ''Corolla'', Integer 1, Integer 1, Text ''Toyota'']]\<rparr> \<and>
   GetModelsByBrandName (corolla False) ''Toyota'' = (Some [], Some (ScannableDestColumns 4))"
  by (simp add: GetModelsByBrandName_error query_models_by_brand_name_def corolla_def)

subsection \<open>Deleting a brand\<close>

text \<open>
  Claim C8 says that no model row refers to a deleted brand. On a connection that does
  not enforce foreign keys (and no statement of the source makes it enforce them)
  Toyota and its model Corolla are created, the brand row is deleted in the database,
  and the model row is still there and refers to brand 1, which no longer exists. On such
  a connection \<open>CreateModel\<close> also stores a model for brand 99, which never existed.
\<close>

theorem delete_brand_leaves_model:
  "CreateBrand (empty_tables False) ''Toyota'' = ((1, None), toyota False) \<and>
   CreateModel (toyota False) ''Corolla'' 1 = ((1, None), corolla False) \<and>
   exec_delete_brand (corolla False) 1 = Inr ((corolla False)\<lparr>brand_tbl := Some []\<rparr>) \<and>
   model_rows ((corolla False)\<lparr>brand_tbl := Some []\<rparr>)
     = [\<lparr>m_id = 1, m_name = ''Corolla'', m_brand_id = 1\<rparr>] \<and>
   brand_rows ((corolla False)\<lparr>brand_tbl := Some []\<rparr>) = [] \<and>
   CreateModel (empty_tables False) ''Corolla'' 99
     = ((1, None),
        (empty_tables False)\<lparr>model_tbl :=
           Some [\<lparr>m_id = 1, m_name = ''Corolla'', m_brand_id = 99\<rparr>]\<rparr>)"
  by (simp add: CreateBrand_def exec_insert_brand_def CreateModel_def exec_insert_model_def
      new_rowid_def LastInsertId_def exec_delete_brand_def empty_tables_def toyota_def
      corolla_def brand_rows_def model_rows_def)

text \<open>With enforcement on, the same deletion takes the model with it.\<close>

lemma delete_brand_cascades_when_enforced:
  "exec_delete_brand (corolla True) 1 = Inr (empty_tables True)"
  by (simp add: exec_delete_brand_def corolla_def empty_tables_def model_rows_def)

end
